theory Spec2Isabelle
  imports Complex_Main "HOL-Library.Multiset" "HOL-Library.Sublist"
begin

section \<open>Data model (types.ts)\<close>

text \<open>
  A JavaScript \<open>number\<close> is modelled as an exact real: every finite double is one, and
  the rounding of an addition is not modelled. \<open>NaN\<close> only arises from \<open>parseFloat\<close>
  and is modelled there as \<open>None\<close>. Several interfaces of the source share the field
  names \<open>id\<close>, \<open>name\<close>, \<open>amount\<close> and \<open>date\<close>; the records below prefix them with
  the interface they belong to. An optional boolean field (\<open>isDeposit?\<close>,
  \<open>isPinned?\<close>) is a \<open>bool option\<close>, \<open>None\<close> being \<open>undefined\<close>.
\<close>

type_synonym number = real

datatype ExpenseCategory = Food | Transport | Rent | Entertainment | Shopping | Utilities | Other

datatype Priority = Low | Medium | High

record IncomeHistory =
  income_id :: string
  income_amount :: number
  income_date :: string

record Bill =
  bill_id :: string
  bill_name :: string
  bill_amount :: number
  dueDate :: string
  isPaid :: bool
  isDeposit :: "bool option"

record WishlistItem =
  wish_id :: string
  wish_name :: string
  price :: number
  priority :: Priority
  isPinned :: "bool option"

record Expense =
  expense_id :: string
  description :: string
  expense_amount :: number
  category :: ExpenseCategory
  expense_date :: string

record AppData =
  weeklyEstimate :: number
  incomeHistory :: "IncomeHistory list"
  bills :: "Bill list"
  wishlist :: "WishlistItem list"
  expenses :: "Expense list"

text \<open>The all-empty record that \<open>initializeUserData\<close> and the loaders of App.tsx build.\<close>

definition defaultData :: AppData where
  "defaultData =
     \<lparr>weeklyEstimate = 0, incomeHistory = [], bills = [], wishlist = [], expenses = []\<rparr>"

text \<open>JavaScript truthiness of an optional boolean.\<close>

fun truthy :: "bool option \<Rightarrow> bool" where
  "truthy None = False"
| "truthy (Some b) = b"

section \<open>Derived aggregates (App.tsx, lines 143-161)\<close>

text \<open>\<open>xs.reduce((acc, curr) => acc + curr.amount, 0)\<close> is a left fold from 0.\<close>

definition totalHistoryIncome :: "AppData \<Rightarrow> number" where
  "totalHistoryIncome d = foldl (\<lambda>acc curr. acc + income_amount curr) 0 (incomeHistory d)"

definition totalExpenses :: "AppData \<Rightarrow> number" where
  "totalExpenses d = foldl (\<lambda>acc curr. acc + expense_amount curr) 0 (expenses d)"

definition totalUnpaidBills :: "AppData \<Rightarrow> number" where
  "totalUnpaidBills d =
     foldl (\<lambda>acc curr. acc + bill_amount curr) 0 (filter (\<lambda>b. \<not> isPaid b) (bills d))"

definition totalPaidBills :: "AppData \<Rightarrow> number" where
  "totalPaidBills d =
     foldl (\<lambda>acc curr. acc + bill_amount curr) 0 (filter (\<lambda>b. isPaid b) (bills d))"


definition confirmedBalance :: "AppData \<Rightarrow> number" where
  "confirmedBalance d = totalHistoryIncome d - totalExpenses d - totalPaidBills d"

definition projectedBalance :: "AppData \<Rightarrow> number" where
  "projectedBalance d = confirmedBalance d + weeklyEstimate d"


definition pinnedWishlistItems :: "AppData \<Rightarrow> WishlistItem list" where
  "pinnedWishlistItems d = filter (\<lambda>item. truthy (isPinned item)) (wishlist d)"

section \<open>Record mutations (App.tsx)\<close>

text \<open>
  Every mutation is the updater passed to \<open>setData\<close>, a function from the previous
  record to the next. \<open>generateId()\<close> reads the clock and the random generator and
  \<open>new Date().toISOString().split('T')[0]\<close> reads the clock: both results are
  arguments here (\<open>gid\<close>, \<open>today\<close>).
\<close>

definition togglePin :: "string \<Rightarrow> AppData \<Rightarrow> AppData" where
  "togglePin i prev =
     prev\<lparr>wishlist :=
       map (\<lambda>item. if wish_id item = i
                    then item\<lparr>isPinned := Some (\<not> truthy (isPinned item))\<rparr> else item)
           (wishlist prev)\<rparr>"

definition markWishlistAsPurchased :: "string \<Rightarrow> string \<Rightarrow> WishlistItem \<Rightarrow> AppData \<Rightarrow> AppData" where
  "markWishlistAsPurchased gid today item prev =
     prev\<lparr>wishlist := filter (\<lambda>i. wish_id i \<noteq> wish_id item) (wishlist prev),
          expenses := expenses prev @
            [\<lparr>expense_id = ''purchased-'' @ gid,
              description = ''Wishlist: '' @ wish_name item,
              expense_amount = price item,
              category = Shopping,
              expense_date = today\<rparr>]\<rparr>"

section \<open>The two stores and the identity provider\<close>

text \<open>
  The browser's \<open>localStorage\<close> holds strings under the two keys the source uses. The
  text under \<open>wealthway_data_v2\<close> is only ever tested for emptiness and handed to
  \<open>JSON.parse\<close>, so it is represented by what \<open>JSON.parse\<close> makes of it: the empty
  string (falsy), a text that encodes a record, or a text on which \<open>JSON.parse\<close> throws.
  A text that parses to a JSON value other than a record is not represented.
\<close>

datatype json_text = EmptyText | Encodes AppData | Malformed

record localStorage =
  wealthway_data_v2 :: "json_text option"
  moniclear_guest_user :: "string option"

record User =
  uid :: string
  emailVerified :: bool

text \<open>
  The world outside the components: the local store, the remote documents
  \<open>users/<uid>/financialData/main\<close>, the identity provider's current session, and the
  fate of the remote document calls still to come (\<open>True\<close>: the promise resolves,
  \<open>False\<close>: it rejects; an exhausted list means every later call resolves).
  \<open>setDoc_calls\<close> is a trace of the remote writes issued, for the claims that count them.
\<close>

record world =
  storage :: localStorage
  firestore :: "string \<rightharpoonup> AppData"
  currentUser :: "User option"
  outcomes :: "bool list"
  setDoc_calls :: "(string \<times> AppData) list"

datatype StoreError = StoreError

definition next_outcome :: "world \<Rightarrow> bool \<times> world" where
  "next_outcome w =
     (case outcomes w of [] \<Rightarrow> (True, w) | b # bs \<Rightarrow> (b, w\<lparr>outcomes := bs\<rparr>))"

definition getDoc :: "string \<Rightarrow> world \<Rightarrow> (StoreError + AppData option) \<times> world" where
  "getDoc userId w =
     (case next_outcome w of
        (True, w') \<Rightarrow> (Inr (firestore w' userId), w')
      | (False, w') \<Rightarrow> (Inl StoreError, w'))"

text \<open>
  \<open>setDoc(ref, data)\<close> replaces the document. \<open>setDoc(ref, data, {merge: true})\<close> writes
  the fields of \<open>data\<close> over those of the document; \<open>data\<close> is a whole \<open>AppData\<close>, so
  the document that results is \<open>data\<close> as well.
\<close>

definition setDoc :: "string \<Rightarrow> AppData \<Rightarrow> world \<Rightarrow> (StoreError + unit) \<times> world" where
  "setDoc userId d w =
     (case next_outcome (w\<lparr>setDoc_calls := setDoc_calls w @ [(userId, d)]\<rparr>) of
        (True, w') \<Rightarrow> (Inr (), w'\<lparr>firestore := (firestore w')(userId \<mapsto> d)\<rparr>)
      | (False, w') \<Rightarrow> (Inl StoreError, w'))"

section \<open>FirestoreService (services/firestoreService.ts)\<close>

definition initializeUserData :: "string \<Rightarrow> world \<Rightarrow> (StoreError + AppData) \<times> world" where
  "initializeUserData userId w =
     (case setDoc userId defaultData w of
        (Inl e, w') \<Rightarrow> (Inl e, w')
      | (Inr _, w') \<Rightarrow> (Inr defaultData, w'))"

definition getUserData :: "string \<Rightarrow> world \<Rightarrow> AppData option \<times> world" where
  "getUserData userId w =
     (case getDoc userId w of
        (Inl e, w1) \<Rightarrow> (None, w1)
      | (Inr (Some d), w1) \<Rightarrow> (Some d, w1)
      | (Inr None, w1) \<Rightarrow>
          (case initializeUserData userId w1 of
             (Inl e, w2) \<Rightarrow> (None, w2)
           | (Inr d, w2) \<Rightarrow> (Some d, w2)))"

definition saveUserData :: "string \<Rightarrow> AppData \<Rightarrow> world \<Rightarrow> bool \<times> world" where
  "saveUserData userId d w =
     (case setDoc userId d w of
        (Inr _, w') \<Rightarrow> (True, w')
      | (Inl e, w') \<Rightarrow> (False, w'))"

definition removeItem_data :: "world \<Rightarrow> world" where
  "removeItem_data w = w\<lparr>storage := (storage w)\<lparr>wealthway_data_v2 := None\<rparr>\<rparr>"

text \<open>The test of lines 125-130: the remote record exists and one of its sequences is not empty.\<close>

definition hasExistingData :: "AppData option \<Rightarrow> bool" where
  "hasExistingData existingData =
     (case existingData of
        None \<Rightarrow> False
      | Some e \<Rightarrow> length (bills e) > 0 \<or> length (expenses e) > 0
                  \<or> length (wishlist e) > 0 \<or> length (incomeHistory e) > 0)"

definition migrateLocalDataToFirestore :: "string \<Rightarrow> world \<Rightarrow> bool \<times> world" where
  "migrateLocalDataToFirestore userId w =
     (case wealthway_data_v2 (storage w) of
        None \<Rightarrow> (True, w)
      | Some EmptyText \<Rightarrow> (True, w)
      | Some Malformed \<Rightarrow> (False, w)
      | Some (Encodes parsedData) \<Rightarrow>
          (case getUserData userId w of
             (existingData, w1) \<Rightarrow>
               if hasExistingData existingData then (True, w1)
               else (case saveUserData userId parsedData w1 of
                       (_, w2) \<Rightarrow> (True, removeItem_data w2))))"

section \<open>The debounced save effect (App.tsx, lines 125-134)\<close>

text \<open>
  The component state that the effect reads, with the handle of the pending
  \<open>setTimeout\<close>: the callback's closure holds the user id and the record of the render
  that scheduled it. Time is a count of milliseconds. \<open>elapse t\<close> lets the clock reach
  \<open>t\<close>: a pending timer that is due runs \<open>saveUserData\<close>. \<open>setData\<close> at time \<open>t\<close>
  applies an updater and re-runs the effect, whose dependency \<open>data\<close> changed: the cleanup
  of the previous run (\<open>clearTimeout\<close>), then the body. The arguments \<open>usr\<close> and
  \<open>guest\<close> are the \<open>user\<close> and \<open>isGuest\<close> that \<open>useAuth()\<close> delivers.
\<close>

record timer =
  due :: nat
  t_uid :: string
  t_data :: AppData

record AppState =
  isLoadingData :: bool
  data :: AppData
  timeoutId :: "timer option"

definition save_effect :: "User option \<Rightarrow> bool \<Rightarrow> AppState \<Rightarrow> nat \<Rightarrow> timer option" where
  "save_effect usr guest st now =
     (case usr of
        None \<Rightarrow> None
      | Some u \<Rightarrow>
          if \<not> guest \<and> \<not> isLoadingData st
          then Some \<lparr>due = now + 500, t_uid = uid u, t_data = data st\<rparr>
          else None)"

definition clearTimeout :: "AppState \<Rightarrow> AppState" where
  "clearTimeout st = st\<lparr>timeoutId := None\<rparr>"

definition elapse :: "nat \<Rightarrow> AppState \<times> world \<Rightarrow> AppState \<times> world" where
  "elapse t c =
     (case c of (st, w) \<Rightarrow>
        (case timeoutId st of
           None \<Rightarrow> (st, w)
         | Some tm \<Rightarrow>
             if due tm \<le> t
             then (st\<lparr>timeoutId := None\<rparr>, snd (saveUserData (t_uid tm) (t_data tm) w))
             else (st, w)))"

definition setData :: "User option \<Rightarrow> bool \<Rightarrow> nat \<Rightarrow> (AppData \<Rightarrow> AppData)
    \<Rightarrow> AppState \<times> world \<Rightarrow> AppState \<times> world" where
  "setData usr guest t f c =
     (case elapse t c of (st, w) \<Rightarrow>
        let st1 = st\<lparr>data := f (data st)\<rparr>;
            st2 = clearTimeout st1
        in (st2\<lparr>timeoutId := save_effect usr guest st2 t\<rparr>, w))"

fun mutations :: "User option \<Rightarrow> bool \<Rightarrow> (nat \<times> (AppData \<Rightarrow> AppData)) list
    \<Rightarrow> AppState \<times> world \<Rightarrow> AppState \<times> world" where
  "mutations usr guest [] c = c"
| "mutations usr guest ((t, f) # ms) c = mutations usr guest ms (setData usr guest t f c)"

section \<open>AuthProvider (contexts/AuthContext.tsx)\<close>

text \<open>
  The provider's state is the three \<open>useState\<close> cells, with \<open>listening\<close> recording
  whether the \<open>onAuthStateChanged\<close> observer of the effect is registered. A configuration
  pairs it with the world. What the identity provider answers to a call is an argument of
  the operation: \<open>Inl e\<close> or \<open>Some e\<close> is the rejection that the \<open>await\<close> throws.

  \<^item> \<open>authStateChanged\<close> is the observer's callback (lines 60-73);
    \<open>migrateLocalDataToFirestore\<close> catches its own errors, so the \<open>try\<close> around it never
    catches. The callback reads the \<open>isGuest\<close> of the render that registered it; the
    effect registers it anew whenever \<open>isGuest\<close> changes, so that is the current value.
  \<^item> \<open>authEffect\<close> is one run of the effect of lines 51-76 with the cleanup of the previous
    run before it; the effect depends on \<open>isGuest\<close>, so a body that changes \<open>isGuest\<close>
    is followed by one more run. Registering the observer delivers the provider's current
    session to it.
  \<^item> \<open>commit before\<close> is the render after an operation: the effect runs again when
    \<open>isGuest\<close> differs from its value \<open>before\<close>.
  \<^item> \<open>notify u\<close> is the provider changing its session to \<open>u\<close>, which it reports to a
    registered observer. A resolved \<open>signInWithPopup\<close>, \<open>signInWithEmailAndPassword\<close> or
    \<open>createUserWithEmailAndPassword\<close> signs the user in; a resolved
    \<open>signInWithPhoneNumber\<close> only hands out a confirmation object.
  \<^item> \<open>firestoreService.cleanup()\<close> in \<open>logout\<close> releases snapshot listeners, which are
    not part of this state.
\<close>

datatype AuthError = AuthError string string

record Session =
  user :: "User option"
  loading :: bool
  isGuest :: bool
  listening :: bool

definition initialSession :: Session where
  "initialSession = \<lparr>user = None, loading = True, isGuest = False, listening = False\<rparr>"

definition removeItem_guest :: "world \<Rightarrow> world" where
  "removeItem_guest w = w\<lparr>storage := (storage w)\<lparr>moniclear_guest_user := None\<rparr>\<rparr>"

definition setItem_guest :: "world \<Rightarrow> world" where
  "setItem_guest w = w\<lparr>storage := (storage w)\<lparr>moniclear_guest_user := Some ''true''\<rparr>\<rparr>"

definition authStateChanged :: "User option \<Rightarrow> Session \<times> world \<Rightarrow> Session \<times> world" where
  "authStateChanged u c =
     (case c of (s, w) \<Rightarrow>
        let s1 = s\<lparr>user := u\<rparr>;
            w1 = (case u of
                    None \<Rightarrow> w
                  | Some usr \<Rightarrow>
                      if \<not> isGuest s then snd (migrateLocalDataToFirestore (uid usr) w) else w)
        in (s1\<lparr>loading := False\<rparr>, w1))"

definition authEffect_body :: "Session \<times> world \<Rightarrow> Session \<times> world" where
  "authEffect_body c =
     (case c of (s, w) \<Rightarrow>
        if moniclear_guest_user (storage w) = Some ''true''
        then (s\<lparr>isGuest := True, loading := False\<rparr>, w)
        else authStateChanged (currentUser w) (s\<lparr>listening := True\<rparr>, w))"

definition unsubscribe :: "Session \<times> world \<Rightarrow> Session \<times> world" where
  "unsubscribe c = (case c of (s, w) \<Rightarrow> (s\<lparr>listening := False\<rparr>, w))"

definition authEffect :: "Session \<times> world \<Rightarrow> Session \<times> world" where
  "authEffect c =
     (let c1 = authEffect_body (unsubscribe c)
      in if isGuest (fst c1) \<noteq> isGuest (fst c) then authEffect_body (unsubscribe c1) else c1)"

definition commit :: "bool \<Rightarrow> Session \<times> world \<Rightarrow> Session \<times> world" where
  "commit before c = (if isGuest (fst c) \<noteq> before then authEffect c else c)"

definition mount :: "world \<Rightarrow> Session \<times> world" where
  "mount w = authEffect (initialSession, w)"

definition notify :: "User option \<Rightarrow> Session \<times> world \<Rightarrow> Session \<times> world" where
  "notify u c =
     (case c of (s, w) \<Rightarrow>
        if listening s then authStateChanged u (s, w\<lparr>currentUser := u\<rparr>)
        else (s, w\<lparr>currentUser := u\<rparr>))"

definition setLoading :: "bool \<Rightarrow> Session \<times> world \<Rightarrow> Session \<times> world" where
  "setLoading b c = (case c of (s, w) \<Rightarrow> (s\<lparr>loading := b\<rparr>, w))"

definition signedIn :: "bool \<Rightarrow> Session \<times> world \<Rightarrow> Session \<times> world" where
  "signedIn before c =
     (case c of (s, w) \<Rightarrow> commit before (s\<lparr>isGuest := False, loading := False\<rparr>, removeItem_guest w))"

definition signInWithGoogle :: "AuthError + User \<Rightarrow> Session \<times> world
    \<Rightarrow> (AuthError + unit) \<times> (Session \<times> world)" where
  "signInWithGoogle popup c =
     (case popup of
        Inl e \<Rightarrow> (Inl e, setLoading False (setLoading True c))
      | Inr u \<Rightarrow> (Inr (), signedIn (isGuest (fst c)) (notify (Some u) (setLoading True c))))"

definition signInWithEmail :: "AuthError + User \<Rightarrow> Session \<times> world
    \<Rightarrow> (AuthError + unit) \<times> (Session \<times> world)" where
  "signInWithEmail credential c =
     (case credential of
        Inl e \<Rightarrow> (Inl e, setLoading False (setLoading True c))
      | Inr u \<Rightarrow> (Inr (), signedIn (isGuest (fst c)) (notify (Some u) (setLoading True c))))"

definition signUpWithEmail :: "AuthError + User \<Rightarrow> AuthError option \<Rightarrow> Session \<times> world
    \<Rightarrow> (AuthError + unit) \<times> (Session \<times> world)" where
  "signUpWithEmail userCredential verification c =
     (case userCredential of
        Inl e \<Rightarrow> (Inl e, setLoading False (setLoading True c))
      | Inr u \<Rightarrow>
          (case verification of
             Some e \<Rightarrow> (Inl e, setLoading False (notify (Some u) (setLoading True c)))
           | None \<Rightarrow> (Inr (), signedIn (isGuest (fst c)) (notify (Some u) (setLoading True c)))))"

definition signInWithPhone :: "AuthError option \<Rightarrow> Session \<times> world
    \<Rightarrow> (AuthError + unit) \<times> (Session \<times> world)" where
  "signInWithPhone confirmationResult c =
     (case confirmationResult of
        Some e \<Rightarrow> (Inl e, setLoading False (setLoading True c))
      | None \<Rightarrow> (Inr (), signedIn (isGuest (fst c)) (setLoading True c)))"

definition signInAsGuest :: "Session \<times> world \<Rightarrow> Session \<times> world" where
  "signInAsGuest c =
     (case c of (s, w) \<Rightarrow>
        commit (isGuest s) (s\<lparr>isGuest := True, user := None, loading := False\<rparr>, setItem_guest w))"

definition loggedOut :: "bool \<Rightarrow> Session \<times> world \<Rightarrow> Session \<times> world" where
  "loggedOut before c =
     (case c of (s, w) \<Rightarrow> commit before (s\<lparr>user := None, isGuest := False\<rparr>, removeItem_guest w))"

definition logout :: "AuthError option \<Rightarrow> Session \<times> world
    \<Rightarrow> (AuthError + unit) \<times> (Session \<times> world)" where
  "logout signedOut c =
     (if \<not> isGuest (fst c)
      then (case signedOut of
              Some e \<Rightarrow> (Inl e, c)
            | None \<Rightarrow> (Inr (), loggedOut (isGuest (fst c)) (notify None c)))
      else (Inr (), loggedOut (isGuest (fst c)) c))"

definition resetPassword :: "AuthError option \<Rightarrow> Session \<times> world
    \<Rightarrow> (AuthError + unit) \<times> (Session \<times> world)" where
  "resetPassword sent c = (case sent of Some e \<Rightarrow> (Inl e, c) | None \<Rightarrow> (Inr (), c))"

definition sendVerificationEmail :: "AuthError option \<Rightarrow> Session \<times> world
    \<Rightarrow> (AuthError + unit) \<times> (Session \<times> world)" where
  "sendVerificationEmail sent c =
     (case user (fst c) of
        None \<Rightarrow> (Inr (), c)
      | Some u \<Rightarrow>
          if \<not> emailVerified u
          then (case sent of Some e \<Rightarrow> (Inl e, c) | None \<Rightarrow> (Inr (), c))
          else (Inr (), c))"

datatype event =
    SignInWithGoogle "AuthError + User"
  | SignInWithEmail "AuthError + User"
  | SignUpWithEmail "AuthError + User" "AuthError option"
  | SignInWithPhone "AuthError option"
  | SignInAsGuest
  | Logout "AuthError option"
  | ResetPassword "AuthError option"
  | SendVerificationEmail "AuthError option"
  | ProviderSession "User option"

fun perform :: "event \<Rightarrow> Session \<times> world \<Rightarrow> (AuthError + unit) \<times> (Session \<times> world)" where
  "perform (SignInWithGoogle popup) c = signInWithGoogle popup c"
| "perform (SignInWithEmail credential) c = signInWithEmail credential c"
| "perform (SignUpWithEmail userCredential verification) c = signUpWithEmail userCredential verification c"
| "perform (SignInWithPhone confirmationResult) c = signInWithPhone confirmationResult c"
| "perform SignInAsGuest c = (Inr (), signInAsGuest c)"
| "perform (Logout signedOut) c = logout signedOut c"
| "perform (ResetPassword sent) c = resetPassword sent c"
| "perform (SendVerificationEmail sent) c = sendVerificationEmail sent c"
| "perform (ProviderSession u) c = (Inr (), notify u c)"

definition after :: "event list \<Rightarrow> Session \<times> world \<Rightarrow> Session \<times> world" where
  "after evs c = fold (\<lambda>ev c'. snd (perform ev c')) evs c"

fun successful_sign_in :: "event \<Rightarrow> bool" where
  "successful_sign_in (SignInWithGoogle (Inr u)) = True"
| "successful_sign_in (SignInWithEmail (Inr u)) = True"
| "successful_sign_in (SignUpWithEmail (Inr u) None) = True"
| "successful_sign_in (SignInWithPhone None) = True"
| "successful_sign_in ev = False"

section \<open>Form handlers (App.tsx, the \<open>onClick\<close> handlers of the four tabs)\<close>

text \<open>
  \<open>parseFloat\<close> after the language definition: leading white space is skipped, then the
  longest prefix that is a signed decimal literal (digits, a fraction, an exponent) is
  read, and \<open>None\<close> is \<open>NaN\<close>. The literal \<open>Infinity\<close> is not modelled: the price text is
  stripped of letters before it is parsed, and the other texts are the values of numeric
  input fields. White space is the ASCII white space.

  The handlers are anonymous in the source; they are named after their buttons. Each is
  the updater it passes to \<open>setData\<close>, or the identity when its guard does not call
  \<open>setData\<close>. The texts are the values of the form's input fields; \<open>nextWednesday\<close> is
  the result of \<open>getNextWednesday()\<close>, whose module is not part of the sources.
\<close>

definition isWhiteSpace :: "char \<Rightarrow> bool" where
  "isWhiteSpace c \<longleftrightarrow> c \<in> set [CHR 0x09, CHR 0x0A, CHR 0x0B, CHR 0x0C, CHR 0x0D, CHR '' '']"

definition isDigit :: "char \<Rightarrow> bool" where
  "isDigit c \<longleftrightarrow> c \<in> set ''0123456789''"

definition digitVal :: "char \<Rightarrow> nat" where
  "digitVal c = of_char c - 48"

definition digitsVal :: "string \<Rightarrow> nat" where
  "digitsVal ds = foldl (\<lambda>a c. 10 * a + digitVal c) 0 ds"

definition exponentPart :: "string \<Rightarrow> number" where
  "exponentPart r =
     (case r of
        [] \<Rightarrow> 1
      | c # t \<Rightarrow>
          if c = CHR ''e'' \<or> c = CHR ''E''
          then (case t of
                  [] \<Rightarrow> 1
                | sg # ds \<Rightarrow>
                    if sg = CHR ''-''
                    then (if takeWhile isDigit ds = [] then 1
                          else 1 / 10 ^ digitsVal (takeWhile isDigit ds))
                    else if sg = CHR ''+''
                    then (if takeWhile isDigit ds = [] then 1
                          else 10 ^ digitsVal (takeWhile isDigit ds))
                    else (if takeWhile isDigit t = [] then 1
                          else 10 ^ digitsVal (takeWhile isDigit t)))
          else 1)"

definition strUnsignedDecimalLiteral :: "string \<Rightarrow> number option" where
  "strUnsignedDecimalLiteral s =
     (let ip = takeWhile isDigit s; r1 = dropWhile isDigit s
      in case r1 of
           [] \<Rightarrow> if ip = [] then None else Some (real (digitsVal ip))
         | c # t \<Rightarrow>
             if c = CHR ''.''
             then (let fp = takeWhile isDigit t; r2 = dropWhile isDigit t
                   in if ip = [] \<and> fp = [] then None
                      else Some ((real (digitsVal ip) + real (digitsVal fp) / 10 ^ length fp)
                                 * exponentPart r2))
             else if ip = [] then None
             else Some (real (digitsVal ip) * exponentPart r1))"

definition parseFloat :: "string \<Rightarrow> number option" where
  "parseFloat s =
     (case dropWhile isWhiteSpace s of
        [] \<Rightarrow> None
      | c # r \<Rightarrow>
          if c = CHR ''-'' then map_option uminus (strUnsignedDecimalLiteral r)
          else if c = CHR ''+'' then strUnsignedDecimalLiteral r
          else strUnsignedDecimalLiteral (c # r))"

definition orZero :: "number option \<Rightarrow> number" where
  "orZero x = (case x of None \<Rightarrow> 0 | Some v \<Rightarrow> v)"



definition saveForecast :: "string \<Rightarrow> AppData \<Rightarrow> AppData" where
  "saveForecast incomeInput prev = prev\<lparr>weeklyEstimate := orZero (parseFloat incomeInput)\<rparr>"






section \<open>Example inputs\<close>

definition bill_b1 :: Bill where
  "bill_b1 = \<lparr>bill_id = ''b1'', bill_name = ''Rent'', bill_amount = 50,
              dueDate = ''2024-01-03'', isPaid = False, isDeposit = None\<rparr>"

definition record_L :: AppData where
  "record_L = defaultData\<lparr>bills := [bill_b1]\<rparr>"

definition record_estimate_only :: AppData where
  "record_estimate_only = defaultData\<lparr>weeklyEstimate := 100\<rparr>"


definition world_of :: "json_text option \<Rightarrow> AppData option \<Rightarrow> bool list \<Rightarrow> world" where
  "world_of loc rem os =
     \<lparr>storage = \<lparr>wealthway_data_v2 = loc, moniclear_guest_user = None\<rparr>,
      firestore = (\<lambda>u. if u = ''u1'' then rem else None),
      currentUser = None, outcomes = os, setDoc_calls = []\<rparr>"



definition wish_w1 :: WishlistItem where
  "wish_w1 = \<lparr>wish_id = ''w1'', wish_name = ''Bike'', price = 120, priority = Medium,
              isPinned = Some False\<rparr>"

definition wish_w2 :: WishlistItem where
  "wish_w2 = \<lparr>wish_id = ''w2'', wish_name = ''Lamp'', price = 15, priority = Medium,
              isPinned = Some True\<rparr>"

definition record_wishes :: AppData where
  "record_wishes = defaultData\<lparr>wishlist := [wish_w1, wish_w2]\<rparr>"

definition user_u1 :: User where
  "user_u1 = \<lparr>uid = ''u1'', emailVerified = True\<rparr>"

definition app_loaded :: AppState where
  "app_loaded = \<lparr>isLoadingData = False, data = defaultData, timeoutId = None\<rparr>"

definition addBill_b1 :: "AppData \<Rightarrow> AppData" where
  "addBill_b1 prev = prev\<lparr>bills := bills prev @ [bill_b1]\<rparr>"


definition user_new :: User where
  "user_new = \<lparr>uid = ''u1'', emailVerified = False\<rparr>"

definition email_failure :: AuthError where
  "email_failure = AuthError ''auth/network-request-failed'' ''Network error''"

section \<open>Aggregates: properties\<close>







text \<open>
  Claim C4. For every record and every wishlist item \<open>W\<close> in it,
  \<open>markWishlistAsPurchased W\<close> removes the item with the id of \<open>W\<close> from the wishlist,
  appends exactly one expense whose amount is the price of \<open>W\<close>, whose category is
  Shopping and whose description contains the name of \<open>W\<close>, and leaves the bills, the
  income history and the weekly estimate unchanged.
\<close>

theorem markWishlistAsPurchased_transition:
  assumes "W \<in> set (wishlist d)"
  shows "wishlist (markWishlistAsPurchased gid today W d)
           = filter (\<lambda>i. wish_id i \<noteq> wish_id W) (wishlist d)
       \<and> wish_id W \<notin> wish_id ` set (wishlist (markWishlistAsPurchased gid today W d))
       \<and> length (wishlist (markWishlistAsPurchased gid today W d)) < length (wishlist d)
       \<and> (\<exists>e. expenses (markWishlistAsPurchased gid today W d) = expenses d @ [e]
              \<and> expense_amount e = price W \<and> category e = Shopping
              \<and> sublist (wish_name W) (description e))
       \<and> bills (markWishlistAsPurchased gid today W d) = bills d
       \<and> incomeHistory (markWishlistAsPurchased gid today W d) = incomeHistory d
       \<and> weeklyEstimate (markWishlistAsPurchased gid today W d) = weeklyEstimate d"
proof -
  have len: "length (filter (\<lambda>i. wish_id i \<noteq> wish_id W) (wishlist d)) < length (wishlist d)"
    using assms by (intro length_filter_less [of W]) simp_all
  have sub: "sublist (wish_name W) (''Wishlist: '' @ wish_name W)"
    using sublist_appendI [of "wish_name W" "''Wishlist: ''" "[]"] by simp
  show ?thesis
    using len sub by (auto simp: markWishlistAsPurchased_def)
qed

theorem markWishlistAsPurchased_transition_witness:
  "wishlist (markWishlistAsPurchased ''17-abc'' ''2024-01-05'' wish_w1 record_wishes) = [wish_w2]
   \<and> (\<exists>e. expenses (markWishlistAsPurchased ''17-abc'' ''2024-01-05'' wish_w1 record_wishes) = [e]
          \<and> expense_amount e = 120 \<and> category e = Shopping \<and> sublist ''Bike'' (description e))"
proof -
  have mem: "wish_w1 \<in> set (wishlist record_wishes)"
    by (simp add: record_wishes_def)
  show ?thesis
    using markWishlistAsPurchased_transition [OF mem, of "''17-abc''" "''2024-01-05''"]
    by (simp add: record_wishes_def wish_w1_def wish_w2_def defaultData_def)
qed

section \<open>Reconciliation: properties\<close>

lemmas service_defs = migrateLocalDataToFirestore_def getUserData_def getDoc_def next_outcome_def
        hasExistingData_def saveUserData_def setDoc_def removeItem_data_def initializeUserData_def



text \<open>
  Claim C5. Reconciliation is idempotent once complete: with the guest-local record
  absent, \<open>migrateLocalDataToFirestore\<close> changes nothing and reports success; hence,
  when the first call has removed the local key, a second call in succession reports
  success and leaves the remote documents as the first call left them.
\<close>

theorem reconcile_idempotent:
  "(wealthway_data_v2 (storage w) = None \<longrightarrow> migrateLocalDataToFirestore userId w = (True, w))
   \<and> (wealthway_data_v2 (storage (snd (migrateLocalDataToFirestore userId w))) = None \<longrightarrow>
        migrateLocalDataToFirestore userId (snd (migrateLocalDataToFirestore userId w))
          = (True, snd (migrateLocalDataToFirestore userId w))
      \<and> firestore (snd (migrateLocalDataToFirestore userId
                          (snd (migrateLocalDataToFirestore userId w))))
          = firestore (snd (migrateLocalDataToFirestore userId w)))"
  by (simp add: migrateLocalDataToFirestore_def)

theorem reconcile_idempotent_witness:
  "migrateLocalDataToFirestore ''u1'' (world_of None (Some record_estimate_only) [])
     = (True, world_of None (Some record_estimate_only) [])
   \<and> firestore (snd (migrateLocalDataToFirestore ''u1'' (snd (migrateLocalDataToFirestore ''u1''
        (world_of (Some (Encodes record_L)) (Some record_estimate_only) []))))) ''u1''
     = Some record_L"
proof -
  let ?w = "world_of (Some (Encodes record_L)) (Some record_estimate_only) []"
  have gone: "wealthway_data_v2 (storage (snd (migrateLocalDataToFirestore ''u1'' ?w))) = None"
    by (simp add: world_of_def record_estimate_only_def defaultData_def service_defs)
  have once: "firestore (snd (migrateLocalDataToFirestore ''u1'' ?w)) ''u1'' = Some record_L"
    by (simp add: world_of_def record_estimate_only_def defaultData_def service_defs)
  show ?thesis
    using reconcile_idempotent [of "world_of None (Some record_estimate_only) []" "''u1''"]
      reconcile_idempotent [of ?w "''u1''"] gone once
    by (simp add: world_of_def)
qed

text \<open>
  Claim C10. On the empty-remote branch the outcome does not depend on whether the remote
  write succeeded: whatever \<open>saveUserData\<close> returns (\<open>saved\<close>), the local key is removed
  and \<open>migrateLocalDataToFirestore\<close> reports success; when the save fails, the remote
  documents are unchanged, so the local record is deleted without having been persisted.
\<close>

theorem reconcile_ignores_failed_save:
  assumes "wealthway_data_v2 (storage w) = Some (Encodes L)"
    and "firestore w userId = Some Rm"
    and "bills Rm = [] \<and> expenses Rm = [] \<and> wishlist Rm = [] \<and> incomeHistory Rm = []"
    and "outcomes w = True # saved # rest"
  shows "fst (migrateLocalDataToFirestore userId w) = True
       \<and> wealthway_data_v2 (storage (snd (migrateLocalDataToFirestore userId w))) = None
       \<and> fst (saveUserData userId L (snd (getUserData userId w))) = saved
       \<and> (\<not> saved \<longrightarrow> firestore (snd (migrateLocalDataToFirestore userId w)) = firestore w)"
  using assms by (cases saved) (simp_all add: service_defs)

theorem reconcile_ignores_failed_save_witness:
  "fst (migrateLocalDataToFirestore ''u1''
      (world_of (Some (Encodes record_L)) (Some record_estimate_only) [True, False])) = True
   \<and> wealthway_data_v2 (storage (snd (migrateLocalDataToFirestore ''u1''
      (world_of (Some (Encodes record_L)) (Some record_estimate_only) [True, False])))) = None
   \<and> firestore (snd (migrateLocalDataToFirestore ''u1''
      (world_of (Some (Encodes record_L)) (Some record_estimate_only) [True, False]))) ''u1''
     = Some record_estimate_only"
  using reconcile_ignores_failed_save
    [of "world_of (Some (Encodes record_L)) (Some record_estimate_only) [True, False]"
        record_L "''u1''" record_estimate_only False "[]"]
  by (simp add: world_of_def record_estimate_only_def defaultData_def)

section \<open>The save effect: properties\<close>





lemma guest_setData:
  "timeoutId st = None \<Longrightarrow>
     setData usr True t f (st, w) = (st\<lparr>data := f (data st)\<rparr>, w)"
  by (cases usr) (simp_all add: setData_def elapse_def clearTimeout_def save_effect_def)

lemma guest_mutations:
  "timeoutId st = None \<Longrightarrow>
     mutations usr True ms (st, w) = (st\<lparr>data := foldl (\<lambda>d f. f d) (data st) (map snd ms)\<rparr>, w)"
proof (induction ms arbitrary: st)
  case Nil
  then show ?case by simp
next
  case (Cons m ms)
  obtain t f where m: "m = (t, f)" by (cases m)
  show ?case
    using Cons.prems Cons.IH [of "st\<lparr>data := f (data st)\<rparr>"] m
    by (simp add: guest_setData)
qed

text \<open>
  Claim C3, as amended. For a guest identity the save effect schedules nothing: whatever
  mutations a guest makes and however long one waits, neither the local store entry nor
  the remote documents change. The effect schedules a write exactly when a user is
  signed in, the session is not a guest session and the data has loaded.
\<close>

theorem guest_save_writes_nothing:
  assumes "timeoutId st = None"
  shows "snd (elapse T (mutations usr True ms (st, w))) = w
       \<and> timeoutId (fst (elapse T (mutations usr True ms (st, w)))) = None
       \<and> (save_effect usr guest st t \<noteq> None
            \<longleftrightarrow> usr \<noteq> None \<and> \<not> guest \<and> \<not> isLoadingData st)"
  using assms
  by (cases usr) (simp_all add: guest_mutations elapse_def save_effect_def)

theorem guest_save_writes_nothing_witness:
  "snd (elapse 1000 (mutations None True [(0, addBill_b1)] (app_loaded, world_of None None [])))
     = world_of None None []"
  using guest_save_writes_nothing [of app_loaded 1000 None "[(0, addBill_b1)]" "world_of None None []"]
  by (simp add: app_loaded_def)

text \<open>
  Claim C3 as stated fails: a guest adds the bill \<open>b1\<close> to the empty record, and a second
  later the local store entry still does not hold the current record.
\<close>

theorem guest_save_counterexample:
  "data (fst (elapse 1000 (mutations None True [(0, addBill_b1)]
       (app_loaded, world_of None None [])))) = record_L
   \<and> wealthway_data_v2 (storage (snd (elapse 1000 (mutations None True [(0, addBill_b1)]
       (app_loaded, world_of None None []))))) \<noteq> Some (Encodes record_L)"
  by (simp add: setData_def elapse_def clearTimeout_def save_effect_def app_loaded_def
      world_of_def addBill_b1_def record_L_def defaultData_def)

section \<open>The session: properties\<close>

lemma migrate_keeps:
  "moniclear_guest_user (storage (snd (migrateLocalDataToFirestore userId w)))
     = moniclear_guest_user (storage w)"
  "currentUser (snd (migrateLocalDataToFirestore userId w)) = currentUser w"
  by (auto simp: service_defs split: option.splits json_text.splits list.splits bool.splits prod.splits sum.splits)

lemma authStateChanged_fields:
  "user (fst (authStateChanged u c)) = u"
  "isGuest (fst (authStateChanged u c)) = isGuest (fst c)"
  "listening (fst (authStateChanged u c)) = listening (fst c)"
  "moniclear_guest_user (storage (snd (authStateChanged u c))) = moniclear_guest_user (storage (snd c))"
  by (cases c; cases u; simp add: authStateChanged_def Let_def migrate_keeps)+

lemma setLoading_fields:
  "user (fst (setLoading b c)) = user (fst c)"
  "isGuest (fst (setLoading b c)) = isGuest (fst c)"
  "listening (fst (setLoading b c)) = listening (fst c)"
  "snd (setLoading b c) = snd c"
  by (cases c; simp add: setLoading_def)+

lemma notify_fields:
  "isGuest (fst (notify u c)) = isGuest (fst c)"
  "listening (fst (notify u c)) = listening (fst c)"
  "user (fst (notify u c)) = (if listening (fst c) then u else user (fst c))"
  "moniclear_guest_user (storage (snd (notify u c))) = moniclear_guest_user (storage (snd c))"
  by (cases c; simp add: notify_def authStateChanged_fields)+

definition exclusive :: "Session \<times> world \<Rightarrow> bool" where
  "exclusive c \<longleftrightarrow> (isGuest (fst c) \<longrightarrow> user (fst c) = None \<and> \<not> listening (fst c))"

lemma authEffect_body_guest:
  assumes "moniclear_guest_user (storage (snd c)) = Some ''true''"
  shows "isGuest (fst (authEffect_body (unsubscribe c)))"
    "user (fst (authEffect_body (unsubscribe c))) = user (fst c)"
    "\<not> listening (fst (authEffect_body (unsubscribe c)))"
    "snd (authEffect_body (unsubscribe c)) = snd c"
  using assms by (cases c; simp add: authEffect_body_def unsubscribe_def)+

lemma authEffect_body_listen:
  assumes "moniclear_guest_user (storage (snd c)) \<noteq> Some ''true''"
  shows "isGuest (fst (authEffect_body (unsubscribe c))) = isGuest (fst c)"
    "moniclear_guest_user (storage (snd (authEffect_body (unsubscribe c))))
       = moniclear_guest_user (storage (snd c))"
  using assms by (cases c; simp add: authEffect_body_def unsubscribe_def authStateChanged_fields)+

lemma authEffect_guest:
  assumes "moniclear_guest_user (storage (snd c)) = Some ''true''"
  shows "isGuest (fst (authEffect c))" "user (fst (authEffect c)) = user (fst c)"
    "\<not> listening (fst (authEffect c))" "snd (authEffect c) = snd c"
  using assms
  by (simp_all add: authEffect_def Let_def authEffect_body_guest)

lemma authEffect_listen:
  assumes "moniclear_guest_user (storage (snd c)) \<noteq> Some ''true''"
  shows "isGuest (fst (authEffect c)) = isGuest (fst c)"
    "moniclear_guest_user (storage (snd (authEffect c))) = moniclear_guest_user (storage (snd c))"
  using assms
  by (simp_all add: authEffect_def Let_def authEffect_body_listen)

lemma exclusive_authEffect:
  assumes "if moniclear_guest_user (storage (snd c)) = Some ''true''
           then user (fst c) = None else \<not> isGuest (fst c)"
  shows "exclusive (authEffect c)"
proof (cases "moniclear_guest_user (storage (snd c)) = Some ''true''")
  case True
  then show ?thesis using assms by (simp add: exclusive_def authEffect_guest)
next
  case False
  then show ?thesis using assms by (simp add: exclusive_def authEffect_listen)
qed

lemma exclusive_mount: "exclusive (mount w)"
  unfolding mount_def by (rule exclusive_authEffect) (simp add: initialSession_def)

lemma signedIn_fields:
  "\<not> isGuest (fst (signedIn before c))"
  "moniclear_guest_user (storage (snd (signedIn before c))) = None"
  by (cases c; simp add: signedIn_def commit_def removeItem_guest_def authEffect_listen)+

lemma loggedOut_fields:
  "\<not> isGuest (fst (loggedOut before c))"
  by (cases c; simp add: loggedOut_def commit_def removeItem_guest_def authEffect_listen)

lemma exclusive_signInAsGuest: "exclusive c \<Longrightarrow> exclusive (signInAsGuest c)"
  by (cases c) (auto simp: signInAsGuest_def commit_def setItem_guest_def exclusive_def
      authEffect_guest)

lemma exclusive_notify: "exclusive c \<Longrightarrow> exclusive (notify u c)"
  by (auto simp: exclusive_def notify_fields)

lemma exclusive_setLoading: "exclusive c \<Longrightarrow> exclusive (setLoading b c)"
  by (simp add: exclusive_def setLoading_fields)

lemma exclusive_not_guest: "\<not> isGuest (fst c) \<Longrightarrow> exclusive c"
  by (simp add: exclusive_def)

lemma exclusive_perform: "exclusive c \<Longrightarrow> exclusive (snd (perform ev c))"
proof (cases ev)
  case (SignUpWithEmail cr ver)
  assume "exclusive c"
  then show ?thesis using SignUpWithEmail
    by (auto simp: signUpWithEmail_def exclusive_setLoading exclusive_notify
        exclusive_not_guest signedIn_fields split: sum.splits option.splits)
qed (auto simp: signInWithGoogle_def signInWithEmail_def signInWithPhone_def logout_def
      resetPassword_def sendVerificationEmail_def exclusive_setLoading exclusive_notify
      exclusive_signInAsGuest exclusive_not_guest signedIn_fields loggedOut_fields
      split: sum.splits option.splits)

lemma exclusive_after: "exclusive c \<Longrightarrow> exclusive (after evs c)"
  unfolding after_def by (induction evs arbitrary: c) (simp_all add: exclusive_perform)

lemma not_guest_perform:
  assumes "\<not> isGuest (fst c)" and "ev \<noteq> SignInAsGuest"
  shows "\<not> isGuest (fst (snd (perform ev c)))"
  using assms
  by (cases ev)
     (auto simp: signInWithGoogle_def signInWithEmail_def signUpWithEmail_def
        signInWithPhone_def logout_def resetPassword_def sendVerificationEmail_def
        setLoading_fields notify_fields signedIn_fields loggedOut_fields
        split: sum.splits option.splits)

lemma not_guest_after:
  "\<not> isGuest (fst c) \<Longrightarrow> SignInAsGuest \<notin> set evs \<Longrightarrow> \<not> isGuest (fst (after evs c))"
proof (induction evs arbitrary: c)
  case Nil
  then show ?case by (simp add: after_def)
next
  case (Cons ev evs)
  have "\<not> isGuest (fst (snd (perform ev c)))"
    using Cons.prems by (intro not_guest_perform) auto
  then have "\<not> isGuest (fst (after evs (snd (perform ev c))))"
    using Cons.prems by (intro Cons.IH) auto
  then show ?case by (simp add: after_def)
qed

lemma successful_sign_in_fields:
  assumes "successful_sign_in ev"
  shows "\<not> isGuest (fst (snd (perform ev c)))"
    "moniclear_guest_user (storage (snd (snd (perform ev c)))) = None"
  using assms
  by (induction ev rule: successful_sign_in.induct)
     (simp_all add: signInWithGoogle_def signInWithEmail_def signUpWithEmail_def
        signInWithPhone_def signedIn_fields)

text \<open>
  Claim C8. Guest and authenticated states are mutually exclusive: in every state the
  provider component reaches from its mount, through any sequence of operations with any
  outcomes, \<open>user \<noteq> null\<close> and \<open>isGuest\<close> never hold together; after any successful
  sign-in operation (federated, e-mail sign-in or sign-up, phone) the guest flag is false
  and the durable guest-session key is removed, and the flag stays false through every
  later sequence of operations that contains no guest entry.
\<close>

theorem guest_and_authenticated_exclusive:
  "\<not> (user (fst (after evs (mount w))) \<noteq> None \<and> isGuest (fst (after evs (mount w))))
   \<and> (successful_sign_in ev \<longrightarrow>
        \<not> isGuest (fst (snd (perform ev c)))
      \<and> moniclear_guest_user (storage (snd (snd (perform ev c)))) = None
      \<and> (SignInAsGuest \<notin> set evs' \<longrightarrow> \<not> isGuest (fst (after evs' (snd (perform ev c))))))"
proof -
  have "exclusive (after evs (mount w))"
    by (intro exclusive_after exclusive_mount)
  then have one: "\<not> (user (fst (after evs (mount w))) \<noteq> None \<and> isGuest (fst (after evs (mount w))))"
    by (auto simp: exclusive_def)
  show ?thesis
    using one successful_sign_in_fields [of ev c] not_guest_after [of "snd (perform ev c)" evs']
    by blast
qed

lemma failed_operation_keeps_guest_flag:
  assumes "fst (perform ev c) = Inl e"
  shows "isGuest (fst (snd (perform ev c))) = isGuest (fst c)
       \<and> moniclear_guest_user (storage (snd (snd (perform ev c))))
           = moniclear_guest_user (storage (snd c))"
  using assms
  by (cases ev)
     (auto simp: signInWithGoogle_def signInWithEmail_def signUpWithEmail_def
        signInWithPhone_def logout_def resetPassword_def sendVerificationEmail_def
        setLoading_fields notify_fields
        split: sum.splits option.splits if_splits)

lemma failed_operation_keeps_user:
  assumes "fst (perform ev c) = Inl e"
    and "\<forall>u v. ev \<noteq> SignUpWithEmail (Inr u) (Some v)"
  shows "user (fst (snd (perform ev c))) = user (fst c)"
  using assms
  by (cases ev)
     (auto simp: signInWithGoogle_def signInWithEmail_def signUpWithEmail_def
        signInWithPhone_def logout_def resetPassword_def sendVerificationEmail_def
        setLoading_fields notify_fields
        split: sum.splits option.splits if_splits)

lemmas session_defs = mount_def authEffect_def authEffect_body_def unsubscribe_def
  authStateChanged_def initialSession_def notify_def setLoading_def signedIn_def commit_def
  removeItem_guest_def setItem_guest_def signInAsGuest_def loggedOut_def

text \<open>
  Claim C9 at the input where the code departs from it: from the unauthenticated state
  after mount, \<open>signUpWithEmail\<close> creates the account and the verification e-mail is
  rejected. The call throws, yet \<open>user\<close> has gone from \<open>null\<close> to the new user and the
  observer has migrated and removed the guest-local record.
\<close>

theorem signUpWithEmail_partial_transition:
  "fst (signUpWithEmail (Inr user_new) (Some email_failure)
          (mount (world_of (Some (Encodes record_L)) None []))) = Inl email_failure
   \<and> user (fst (mount (world_of (Some (Encodes record_L)) None []))) = None
   \<and> user (fst (snd (signUpWithEmail (Inr user_new) (Some email_failure)
          (mount (world_of (Some (Encodes record_L)) None []))))) = Some user_new
   \<and> wealthway_data_v2 (storage (snd (snd (signUpWithEmail (Inr user_new) (Some email_failure)
          (mount (world_of (Some (Encodes record_L)) None [])))))) = None"
  by (simp add: signUpWithEmail_def session_defs world_of_def user_new_def service_defs
      defaultData_def Let_def)

theorem guest_and_authenticated_exclusive_witness:
  "user (fst (after [SignInAsGuest, SignInWithGoogle (Inr user_u1)] (mount (world_of None None []))))
     = Some user_u1
   \<and> \<not> isGuest (fst (after [SignInAsGuest, SignInWithGoogle (Inr user_u1)]
                        (mount (world_of None None []))))
   \<and> moniclear_guest_user (storage (snd (after [SignInAsGuest] (mount (world_of None None [])))))
       = Some ''true''
   \<and> moniclear_guest_user (storage (snd (snd (perform (SignInWithGoogle (Inr user_u1))
         (after [SignInAsGuest] (mount (world_of None None []))))))) = None
   \<and> \<not> isGuest (fst (after [Logout None, SignInWithPhone (Some email_failure)]
         (snd (perform (SignInWithGoogle (Inr user_u1))
            (after [SignInAsGuest] (mount (world_of None None [])))))))"
proof -
  let ?c = "after [SignInAsGuest] (mount (world_of None None []))"
  have ok: "successful_sign_in (SignInWithGoogle (Inr user_u1))"
    and no_guest: "SignInAsGuest \<notin> set [Logout None, SignInWithPhone (Some email_failure)]"
    by simp_all
  have run: "after [SignInAsGuest, SignInWithGoogle (Inr user_u1)] (mount (world_of None None []))
      = snd (perform (SignInWithGoogle (Inr user_u1)) ?c)"
    by (simp add: after_def)
  have usr: "user (fst (snd (perform (SignInWithGoogle (Inr user_u1)) ?c))) = Some user_u1"
    by (simp add: after_def signInWithGoogle_def session_defs world_of_def service_defs Let_def)
  have key: "moniclear_guest_user (storage (snd ?c)) = Some ''true''"
    by (simp add: after_def session_defs world_of_def Let_def)
  show ?thesis
    using guest_and_authenticated_exclusive
      [of "[SignInAsGuest, SignInWithGoogle (Inr user_u1)]" "world_of None None []"
          "SignInWithGoogle (Inr user_u1)" ?c "[Logout None, SignInWithPhone (Some email_failure)]"]
      ok no_guest run usr key
    by simp
qed

section \<open>Form handlers: properties\<close>









end
